theory Spec2Isabelle
  imports Main
begin

section \<open>Browser-side state\<close>

text \<open>
  The front end keeps its session in three places: the React state of \<open>AuthProvider\<close>
  (\<open>user\<close>, \<open>loading\<close>), the browser's \<open>localStorage\<close> (keys \<open>access_token\<close> and
  \<open>user_role\<close>) and the current location, changed either by the router's \<open>navigate\<close>
  or by an assignment to \<open>window.location.href\<close>. Notifications raised through
  \<open>toast\<close> are collected in order.
\<close>

type_synonym storage = "string \<rightharpoonup> string"

record login_data =
  access_token :: string
  role :: string
  user_id :: string

text \<open>
  The identity object. \<open>id'\<close> is the source's field \<open>id\<close>, \<open>underscore_id\<close> its field
  \<open>_id\<close>, which only \<open>login\<close> fills in.
\<close>

record userData =
  id' :: string
  email :: string
  role :: string
  underscore_id :: "string option"

datatype toast = ToastSuccess string | ToastError string

record state =
  user :: "userData option"
  loading :: bool
  localStorage :: storage
  navigated :: "string option"
  location_href :: "string option"
  toasts :: "toast list"

type_synonym effect = "state \<Rightarrow> state"

definition getItem :: "string \<Rightarrow> state \<Rightarrow> string option" where
  "getItem k s = localStorage s k"

definition setItem :: "string \<Rightarrow> string \<Rightarrow> effect" where
  "setItem k v s = s\<lparr>localStorage := (localStorage s)(k \<mapsto> v)\<rparr>"

definition removeItem :: "string \<Rightarrow> effect" where
  "removeItem k s = s\<lparr>localStorage := (localStorage s)(k := None)\<rparr>"

definition setUser :: "userData option \<Rightarrow> effect" where
  "setUser u s = s\<lparr>user := u\<rparr>"

definition setLoading :: "bool \<Rightarrow> effect" where
  "setLoading b s = s\<lparr>loading := b\<rparr>"

definition navigate :: "string \<Rightarrow> effect" where
  "navigate p s = s\<lparr>navigated := Some p\<rparr>"

definition set_location_href :: "string \<Rightarrow> effect" where
  "set_location_href p s = s\<lparr>location_href := Some p\<rparr>"

definition toast_success :: "string \<Rightarrow> effect" where
  "toast_success m s = s\<lparr>toasts := toasts s @ [ToastSuccess m]\<rparr>"

definition toast_error :: "string \<Rightarrow> effect" where
  "toast_error m s = s\<lparr>toasts := toasts s @ [ToastError m]\<rparr>"

text \<open>
  A handler body is a straight-line sequence of such effects. \<open>run\<close> executes it,
  \<open>trace\<close> lists the state after each statement.
\<close>

fun run :: "effect list \<Rightarrow> state \<Rightarrow> state" where
  "run [] s = s"
| "run (f # fs) s = run fs (f s)"

fun trace :: "effect list \<Rightarrow> state \<Rightarrow> state list" where
  "trace [] s = []"
| "trace (f # fs) s = f s # trace fs (f s)"

text \<open>JavaScript truthiness of a value that is a string or \<open>null\<close>/\<open>undefined\<close>.\<close>

definition truthy :: "string option \<Rightarrow> bool" where
  "truthy v = (case v of None \<Rightarrow> False | Some t \<Rightarrow> t \<noteq> [])"

text \<open>\<open>v || d\<close> for such a value and a string default.\<close>

definition or_default :: "string option \<Rightarrow> string \<Rightarrow> string" where
  "or_default v d = (case v of None \<Rightarrow> d | Some t \<Rightarrow> if t = [] then d else t)"

section \<open>The HTTP client (axiosClient)\<close>

record request =
  url :: string
  headers :: "string \<rightharpoonup> string"
  payload :: "(string \<times> string) list"

record error_response =
  status :: int
  detail :: "string option"

text \<open>An axios error; \<open>response\<close> is absent when no answer was received.\<close>

datatype axios_error = AxiosError (response: "error_response option")

datatype 'a settled = Resolved 'a | Rejected axios_error

definition axiosClient :: "string \<Rightarrow> (string \<times> string) list \<Rightarrow> request" where
  "axiosClient path body =
     \<lparr>url = ''http://localhost:8000/api/v1'' @ path,
      headers = [''Content-Type'' \<mapsto> ''application/json''],
      payload = body\<rparr>"

definition request_interceptor :: "state \<Rightarrow> request \<Rightarrow> request" where
  "request_interceptor s config =
     (case getItem ''access_token'' s of
        None \<Rightarrow> config
      | Some token \<Rightarrow>
          if token \<noteq> [] then
            config\<lparr>headers := (headers config)(''Authorization'' \<mapsto> ''Bearer '' @ token)\<rparr>
          else config)"

definition on_rejected :: "axios_error \<Rightarrow> effect list" where
  "on_rejected error =
     (case response error of
        Some r \<Rightarrow>
          if status r = 401 then
            [removeItem ''access_token'',
             removeItem ''user_role'',
             set_location_href ''/login'',
             toast_error ''Session expired. Please login again.'']
          else if status r = 403 then
            [toast_error (or_default (detail r) ''Permission denied'')]
          else if status r = 422 then
            [toast_error ''Invalid input data'']
          else if status r = 500 then
            [toast_error ''Server error. Please try again later.'']
          else
            [toast_error (or_default (detail r) ''An error occurred'')]
      | None \<Rightarrow>
          [toast_error ''Network error. Please check your connection.''])"

text \<open>
  The response interceptor: a response is handed on as it is; an error runs the handler
  above and is rejected again with the same error.
\<close>

definition response_interceptor :: "'a settled \<Rightarrow> state \<Rightarrow> 'a settled \<times> state" where
  "response_interceptor r s =
     (case r of
        Resolved resp \<Rightarrow> (Resolved resp, s)
      | Rejected error \<Rightarrow> (Rejected error, run (on_rejected error) s))"

section \<open>AuthProvider\<close>

definition dashboardRoute :: "string \<Rightarrow> string" where
  "dashboardRoute r =
     (if r = ''student'' then ''/student-dashboard''
      else if r = ''recruiter'' then ''/recruiter-dashboard''
      else if r = ''mentor'' then ''/mentor-dashboard''
      else ''/'')"

definition isAuthenticated :: "state \<Rightarrow> bool" where
  "isAuthenticated s = (user s \<noteq> None \<and> getItem ''access_token'' s \<noteq> None)"

definition isStudent :: "state \<Rightarrow> bool" where
  "isStudent s = (case user s of None \<Rightarrow> False | Some u \<Rightarrow> userData.role u = ''student'')"

definition isRecruiter :: "state \<Rightarrow> bool" where
  "isRecruiter s = (case user s of None \<Rightarrow> False | Some u \<Rightarrow> userData.role u = ''recruiter'')"

definition isMentor :: "state \<Rightarrow> bool" where
  "isMentor s = (case user s of None \<Rightarrow> False | Some u \<Rightarrow> userData.role u = ''mentor'')"

definition logout_body :: "effect list" where
  "logout_body =
     [removeItem ''access_token'',
      removeItem ''user_role'',
      setUser None,
      navigate ''/'',
      toast_success ''Logged out successfully!'']"

definition logout :: effect where
  "logout = run logout_body"

text \<open>
  \<open>login\<close> awaits the answer of \<open>POST /auth/login\<close>. \<open>login_settled\<close> is what runs
  when that answer arrives, on the state of that moment: first the response
  interceptor, then the rest of the \<open>try\<close> block, or the \<open>catch\<close> block, which logs
  and throws the error again.
\<close>

definition login_success :: "string \<Rightarrow> login_data \<Rightarrow> effect list" where
  "login_success email' d =
     [setItem ''access_token'' (access_token d),
      setItem ''user_role'' (login_data.role d),
      setUser (Some \<lparr>id' = user_id d, email = email', role = login_data.role d,
                     underscore_id = Some (user_id d)\<rparr>),
      toast_success ''Login successful!'',
      navigate (dashboardRoute (login_data.role d))]"

definition login_settled :: "string \<Rightarrow> login_data settled \<Rightarrow> state \<Rightarrow> unit settled \<times> state" where
  "login_settled email' raw s =
     (case response_interceptor raw s of
        (Resolved d, s') \<Rightarrow> (Resolved (), run (login_success email' d) s')
      | (Rejected error, s') \<Rightarrow> (Rejected error, s'))"

definition login_request :: "string \<Rightarrow> string \<Rightarrow> state \<Rightarrow> request" where
  "login_request email' password s =
     request_interceptor s
       (axiosClient ''/auth/login'' [(''username'', email'), (''password'', password)])"

text \<open>
  A login during which nothing else happens: the server's answer to the request is
  handled on the state the request was sent from.
\<close>

definition login ::
  "string \<Rightarrow> string \<Rightarrow> (request \<Rightarrow> login_data settled) \<Rightarrow> state \<Rightarrow> unit settled \<times> state" where
  "login email' password server s =
     login_settled email' (server (login_request email' password s)) s"

definition getCurrentUser_settled :: "userData settled \<Rightarrow> effect list" where
  "getCurrentUser_settled raw =
     (case raw of
        Resolved userData \<Rightarrow>
          [setUser (Some userData),
           setItem ''user_role'' (userData.role userData),
           setLoading False]
      | Rejected error \<Rightarrow>
          on_rejected error @
          [removeItem ''access_token'',
           removeItem ''user_role'',
           setUser None,
           setLoading False])"

text \<open>The state \<open>AuthProvider\<close> mounts with, over whatever the storage holds.\<close>

definition AuthProvider :: "storage \<Rightarrow> state" where
  "AuthProvider ls =
     \<lparr>user = None, loading = True, localStorage = ls, navigated = None,
      location_href = None, toasts = []\<rparr>"

text \<open>
  The mount effect and what follows from it: every state of the provider from the
  first render to the end of session restoration, in order.
\<close>

definition restoration :: "storage \<Rightarrow> (request \<Rightarrow> userData settled) \<Rightarrow> state list" where
  "restoration ls server =
     (let s0 = AuthProvider ls in
      if truthy (getItem ''access_token'' s0) \<and> truthy (getItem ''user_role'' s0) then
        s0 # trace (getCurrentUser_settled
                      (server (request_interceptor s0 (axiosClient ''/auth/me'' [])))) s0
      else
        s0 # trace [setLoading False] s0)"

section \<open>The routes (AppRoutes)\<close>

datatype view = LoadingView | LoginPage | StudentDashboard | RecruiterDashboard | MentorDashboard

datatype element = Render view | Navigate string

text \<open>
  What \<open>AppRoutes\<close> returns at a location. A path that is none of the five listed ones
  falls to the catch-all route.
\<close>

definition AppRoutes :: "state \<Rightarrow> string \<Rightarrow> element" where
  "AppRoutes s path =
     (if loading s then Render LoadingView
      else if path = ''/login'' then
        (if \<not> isAuthenticated s then Render LoginPage else Navigate ''/'')
      else if path = ''/student-dashboard'' then
        (if isAuthenticated s \<and> isStudent s then Render StudentDashboard
         else Navigate ''/login'')
      else if path = ''/recruiter-dashboard'' then
        (if isAuthenticated s \<and> isRecruiter s then Render RecruiterDashboard
         else Navigate ''/login'')
      else if path = ''/mentor-dashboard'' then
        (if isAuthenticated s \<and> isMentor s then Render MentorDashboard
         else Navigate ''/login'')
      else if path = ''/'' then
        (if isAuthenticated s then
           (if isStudent s then Navigate ''/student-dashboard''
            else if isRecruiter s then Navigate ''/recruiter-dashboard''
            else if isMentor s then Navigate ''/mentor-dashboard''
            else Navigate ''/login'')
         else Navigate ''/login'')
      else Navigate ''/'')"

text \<open>
  The router renders again after each \<open>Navigate\<close>. \<open>follow n s path\<close> takes at most
  \<open>n\<close> renders and gives the location and the view it stops at, or \<open>None\<close> when the
  \<open>n\<close>-th render is still a redirect.
\<close>

fun follow :: "nat \<Rightarrow> state \<Rightarrow> string \<Rightarrow> (string \<times> view) option" where
  "follow 0 s path = None"
| "follow (Suc n) s path =
     (case AppRoutes s path of
        Render v \<Rightarrow> Some (path, v)
      | Navigate to \<Rightarrow> follow n s to)"

definition protected_view :: "view \<Rightarrow> bool" where
  "protected_view v = (v = StudentDashboard \<or> v = RecruiterDashboard \<or> v = MentorDashboard)"

section \<open>Example sessions\<close>

text \<open>
  A visitor with empty storage once the mount effect has run, the student of the login
  scenario, and two error answers of the API.
\<close>

definition anonymous :: state where
  "anonymous = setLoading False (AuthProvider Map.empty)"

definition alex :: login_data where
  "alex = \<lparr>access_token = ''tok1'', login_data.role = ''student'', user_id = ''u1''\<rparr>"

definition student_session :: state where
  "student_session =
     snd (login ''alex@example.com'' ''password123'' (\<lambda>_. Resolved alex) anonymous)"

definition unauthorized :: axios_error where
  "unauthorized =
     AxiosError (Some \<lparr>status = 401, detail = Some ''Could not validate credentials''\<rparr>)"

definition forbidden :: axios_error where
  "forbidden = AxiosError (Some \<lparr>status = 403, detail = Some ''Badge required''\<rparr>)"

text \<open>
  A recruiter, an account whose role is none of the three the front end knows, and a
  storage left over from an earlier visit.
\<close>

definition sam :: login_data where
  "sam = \<lparr>access_token = ''tok2'', login_data.role = ''recruiter'', user_id = ''u2''\<rparr>"

definition recruiter_session :: state where
  "recruiter_session =
     snd (login ''sam@example.com'' ''hunter2'' (\<lambda>_. Resolved sam) anonymous)"

definition root :: login_data where
  "root = \<lparr>access_token = ''tok0'', login_data.role = ''admin'', user_id = ''u0''\<rparr>"

definition admin_session :: state where
  "admin_session =
     snd (login ''root@example.com'' ''toor'' (\<lambda>_. Resolved root) anonymous)"

definition stale :: storage where
  "stale = [''access_token'' \<mapsto> ''expired'', ''user_role'' \<mapsto> ''student'']"

section \<open>Effects of the handlers, in closed form\<close>

lemmas effect_defs =
  getItem_def setItem_def removeItem_def setUser_def setLoading_def navigate_def
  set_location_href_def toast_success_def toast_error_def

lemma logout_eq:
  "logout s =
     s\<lparr>localStorage := (localStorage s)(''access_token'' := None, ''user_role'' := None),
       user := None, navigated := Some ''/'',
       toasts := toasts s @ [ToastSuccess ''Logged out successfully!'']\<rparr>"
  by (simp add: logout_def logout_body_def effect_defs)

lemma login_settled_Resolved:
  "login_settled email' (Resolved d) s =
     (Resolved (),
      s\<lparr>localStorage :=
          (localStorage s)(''access_token'' \<mapsto> access_token d,
                           ''user_role'' \<mapsto> login_data.role d),
        user := Some \<lparr>id' = user_id d, email = email', role = login_data.role d,
                      underscore_id = Some (user_id d)\<rparr>,
        toasts := toasts s @ [ToastSuccess ''Login successful!''],
        navigated := Some (dashboardRoute (login_data.role d))\<rparr>)"
  by (simp add: login_settled_def response_interceptor_def login_success_def effect_defs)

lemma student_session_eq:
  "student_session =
     \<lparr>user = Some \<lparr>id' = ''u1'', email = ''alex@example.com'', role = ''student'',
                    underscore_id = Some ''u1''\<rparr>,
      loading = False,
      localStorage = [''access_token'' \<mapsto> ''tok1'', ''user_role'' \<mapsto> ''student''],
      navigated = Some ''/student-dashboard'',
      location_href = None,
      toasts = [ToastSuccess ''Login successful!'']\<rparr>"
  by (simp add: student_session_def login_def login_settled_Resolved anonymous_def
      AuthProvider_def alex_def setLoading_def dashboardRoute_def)

lemma on_rejected_401:
  assumes "response error = Some r" and "status r = 401"
  shows "run (on_rejected error) s =
     s\<lparr>localStorage := (localStorage s)(''access_token'' := None, ''user_role'' := None),
       location_href := Some ''/login'',
       toasts := toasts s @ [ToastError ''Session expired. Please login again.'']\<rparr>"
  using assms by (simp add: on_rejected_def effect_defs)

lemma on_rejected_403:
  assumes "response error = Some r" and "status r = 403"
  shows "run (on_rejected error) s =
     s\<lparr>toasts := toasts s @ [ToastError (or_default (detail r) ''Permission denied'')]\<rparr>"
  using assms by (simp add: on_rejected_def effect_defs)

section \<open>The HTTP client on error answers\<close>

text \<open>
  C1, as the code has it. On a 401 answer the response interceptor removes
  \<open>access_token\<close> and \<open>user_role\<close> from the storage, assigns \<open>/login\<close> to
  \<open>window.location.href\<close> and only then rejects with the same error. It has no access
  to the provider's \<open>user\<close> state and leaves it as it was; \<open>isAuthenticated\<close> is false
  afterwards all the same, because the token is gone.
\<close>

theorem unauthorized_effect:
  assumes "response error = Some r" and "status r = 401"
  shows "case response_interceptor (Rejected error :: 'a settled) s of
           (outcome, s') \<Rightarrow>
             outcome = Rejected error \<and>
             localStorage s' ''access_token'' = None \<and>
             localStorage s' ''user_role'' = None \<and>
             location_href s' = Some ''/login'' \<and>
             user s' = user s \<and>
             \<not> isAuthenticated s'"
  using assms
  by (simp add: response_interceptor_def on_rejected_401 isAuthenticated_def getItem_def)

theorem unauthorized_effect_witness:
  "case response_interceptor (Rejected unauthorized :: unit settled) student_session of
     (outcome, s') \<Rightarrow>
       outcome = Rejected unauthorized \<and>
       localStorage s' ''access_token'' = None \<and>
       localStorage s' ''user_role'' = None \<and>
       location_href s' = Some ''/login'' \<and>
       user s' = Some \<lparr>id' = ''u1'', email = ''alex@example.com'', role = ''student'',
                        underscore_id = Some ''u1''\<rparr> \<and>
       \<not> isAuthenticated s'"
proof -
  have r: "response unauthorized
             = Some \<lparr>status = 401, detail = Some ''Could not validate credentials''\<rparr>"
    by (simp add: unauthorized_def)
  have u: "user student_session
             = Some \<lparr>id' = ''u1'', email = ''alex@example.com'', role = ''student'',
                      underscore_id = Some ''u1''\<rparr>"
    by (simp add: student_session_eq)
  show ?thesis
    using unauthorized_effect [OF r, of student_session, where 'a = unit] u
    by (simp split: prod.splits)
qed

text \<open>
  C1, as the claim words it, fails: after a 401 answer to a request of the logged-in
  student the identity is still there, so the four effects the claim lists do not all
  hold.
\<close>

theorem unauthorized_keeps_identity:
  "\<not> (case response_interceptor (Rejected unauthorized :: unit settled) student_session of
        (outcome, s') \<Rightarrow>
          localStorage s' ''access_token'' = None \<and>
          localStorage s' ''user_role'' = None \<and>
          user s' = None \<and>
          location_href s' = Some ''/login'')"
  by (simp add: response_interceptor_def unauthorized_def on_rejected_401 student_session_eq)

text \<open>
  C5. On a 403 answer the interceptor shows one error notification, the server's
  \<open>detail\<close> when it has one (\<open>Permission denied\<close> otherwise), and rejects with the same
  error. Storage, identity, loading flag and location are as before, so
  \<open>isAuthenticated\<close> is unchanged and the request interceptor builds the next request
  exactly as it would have before: with the same bearer token when there is one.
\<close>

theorem forbidden_frame:
  assumes "response error = Some r" and "status r = 403"
  shows "case response_interceptor (Rejected error :: 'a settled) s of
           (outcome, s') \<Rightarrow>
             outcome = Rejected error \<and>
             localStorage s' = localStorage s \<and>
             user s' = user s \<and>
             loading s' = loading s \<and>
             navigated s' = navigated s \<and>
             location_href s' = location_href s \<and>
             toasts s' = toasts s @ [ToastError (or_default (detail r) ''Permission denied'')] \<and>
             (\<forall>m. detail r = Some m \<and> m \<noteq> [] \<longrightarrow> last (toasts s') = ToastError m) \<and>
             isAuthenticated s' = isAuthenticated s \<and>
             request_interceptor s' config = request_interceptor s config \<and>
             (\<forall>token. localStorage s ''access_token'' = Some token \<and> token \<noteq> [] \<longrightarrow>
                headers (request_interceptor s' config) ''Authorization''
                  = Some (''Bearer '' @ token))"
  using assms
  by (simp add: response_interceptor_def on_rejected_403 isAuthenticated_def getItem_def
      request_interceptor_def or_default_def)

theorem forbidden_frame_witness:
  "case response_interceptor (Rejected forbidden :: unit settled) student_session of
     (outcome, s') \<Rightarrow>
       outcome = Rejected forbidden \<and>
       localStorage s' = localStorage student_session \<and>
       user s' = user student_session \<and>
       last (toasts s') = ToastError ''Badge required'' \<and>
       headers (request_interceptor s' (axiosClient ''/quiz/start'' [])) ''Authorization''
         = Some ''Bearer tok1''"
proof -
  have r: "response forbidden = Some \<lparr>status = 403, detail = Some ''Badge required''\<rparr>"
    by (simp add: forbidden_def)
  have t: "localStorage student_session ''access_token'' = Some ''tok1''"
    by (simp add: student_session_eq)
  show ?thesis
    using forbidden_frame [OF r, of student_session "axiosClient ''/quiz/start'' []",
                           where 'a = unit] t
    by (auto split: prod.splits)
qed

section \<open>The session store\<close>

text \<open>
  C6. \<open>dashboardRoute\<close> is defined on every role string: the three known roles go to
  their dashboards, and every other string goes to \<open>/\<close>, the route \<open>logout\<close> navigates
  to, from which a visitor who is not authenticated lands on the login page.
\<close>

theorem dashboardRoute_total:
  "dashboardRoute ''student'' = ''/student-dashboard'' \<and>
   dashboardRoute ''recruiter'' = ''/recruiter-dashboard'' \<and>
   dashboardRoute ''mentor'' = ''/mentor-dashboard'' \<and>
   (r \<notin> {''student'', ''recruiter'', ''mentor''} \<longrightarrow>
      dashboardRoute r = ''/'' \<and>
      navigated (logout s) = Some (dashboardRoute r) \<and>
      (\<not> loading t \<and> \<not> isAuthenticated t \<longrightarrow>
         follow 2 t (dashboardRoute r) = Some (''/login'', LoginPage)))"
  by (simp add: dashboardRoute_def logout_eq AppRoutes_def numeral_2_eq_2)

theorem dashboardRoute_total_witness:
  "''admin'' \<notin> {''student'', ''recruiter'', ''mentor''} \<and>
   dashboardRoute ''admin'' = ''/'' \<and>
   \<not> loading anonymous \<and> \<not> isAuthenticated anonymous \<and>
   follow 2 anonymous (dashboardRoute ''admin'') = Some (''/login'', LoginPage)"
  using dashboardRoute_total [of "''admin''" anonymous anonymous]
  by (auto simp: anonymous_def AuthProvider_def setLoading_def isAuthenticated_def)

text \<open>
  C8. \<open>isAuthenticated\<close> holds exactly when the identity is not null and the storage
  has an \<open>access_token\<close> entry; clearing the identity alone, or removing the token
  alone, makes it false.
\<close>

theorem isAuthenticated_iff:
  "(isAuthenticated s \<longleftrightarrow> user s \<noteq> None \<and> localStorage s ''access_token'' \<noteq> None) \<and>
   \<not> isAuthenticated (setUser None s) \<and>
   \<not> isAuthenticated (removeItem ''access_token'' s)"
  by (simp add: isAuthenticated_def effect_defs)

text \<open>
  C9. \<open>logout\<close> is a plain sequence of effects with no failing branch. From every
  state it leaves no identity, no \<open>access_token\<close> and no \<open>user_role\<close> entry and the
  navigation target \<open>/\<close>; a second \<open>logout\<close> changes none of identity, storage,
  navigation target, loading flag and location.
\<close>

theorem logout_idempotent:
  "user (logout s) = None \<and>
   localStorage (logout s) ''access_token'' = None \<and>
   localStorage (logout s) ''user_role'' = None \<and>
   navigated (logout s) = Some ''/'' \<and>
   \<not> isAuthenticated (logout s) \<and>
   user (logout (logout s)) = user (logout s) \<and>
   localStorage (logout (logout s)) = localStorage (logout s) \<and>
   navigated (logout (logout s)) = navigated (logout s) \<and>
   loading (logout (logout s)) = loading (logout s) \<and>
   location_href (logout (logout s)) = location_href (logout s)"
  by (simp add: logout_eq isAuthenticated_def getItem_def)

text \<open>
  C3. When the server answers the login request with a token, a role and a user id,
  \<open>login\<close> resolves, stores the token under \<open>access_token\<close> and the role under
  \<open>user_role\<close>, sets the identity to the id, the e-mail address and the role (with the
  id once more as \<open>_id\<close>) and navigates to \<open>dashboardRoute\<close> of the role; for each of
  the three known roles that is the role's dashboard, and the session is an
  authenticated one of that role.
\<close>

theorem login_success_effect:
  assumes "server (login_request email' password s) = Resolved d"
  shows "case login email' password server s of
           (outcome, s') \<Rightarrow>
             outcome = Resolved () \<and>
             localStorage s' ''access_token'' = Some (access_token d) \<and>
             localStorage s' ''user_role'' = Some (login_data.role d) \<and>
             user s' = Some \<lparr>id' = user_id d, email = email', role = login_data.role d,
                              underscore_id = Some (user_id d)\<rparr> \<and>
             navigated s' = Some (dashboardRoute (login_data.role d)) \<and>
             isAuthenticated s' \<and>
             (login_data.role d = ''student'' \<longrightarrow>
                navigated s' = Some ''/student-dashboard'' \<and> isStudent s') \<and>
             (login_data.role d = ''recruiter'' \<longrightarrow>
                navigated s' = Some ''/recruiter-dashboard'' \<and> isRecruiter s') \<and>
             (login_data.role d = ''mentor'' \<longrightarrow>
                navigated s' = Some ''/mentor-dashboard'' \<and> isMentor s')"
  using assms
  by (simp add: login_def login_settled_Resolved isAuthenticated_def getItem_def
      dashboardRoute_def isStudent_def isRecruiter_def isMentor_def)

theorem login_success_effect_witness:
  "case login ''alex@example.com'' ''password123'' (\<lambda>_. Resolved alex) anonymous of
     (outcome, s') \<Rightarrow>
       outcome = Resolved () \<and>
       localStorage s' ''access_token'' = Some ''tok1'' \<and>
       localStorage s' ''user_role'' = Some ''student'' \<and>
       user s' = Some \<lparr>id' = ''u1'', email = ''alex@example.com'', role = ''student'',
                        underscore_id = Some ''u1''\<rparr> \<and>
       navigated s' = Some ''/student-dashboard'' \<and>
       isAuthenticated s' \<and> isStudent s'"
  using login_success_effect
    [of "\<lambda>_. Resolved alex" "''alex@example.com''" "''password123''" anonymous alex]
  by (auto simp: alex_def split: prod.splits)

section \<open>A login that settles after a logout\<close>

lemma recruiter_session_eq:
  "recruiter_session =
     \<lparr>user = Some \<lparr>id' = ''u2'', email = ''sam@example.com'', role = ''recruiter'',
                    underscore_id = Some ''u2''\<rparr>,
      loading = False,
      localStorage = [''access_token'' \<mapsto> ''tok2'', ''user_role'' \<mapsto> ''recruiter''],
      navigated = Some ''/recruiter-dashboard'',
      location_href = None,
      toasts = [ToastSuccess ''Login successful!'']\<rparr>"
  by (simp add: recruiter_session_def login_def login_settled_Resolved anonymous_def
      AuthProvider_def sam_def setLoading_def dashboardRoute_def)

lemma admin_session_eq:
  "admin_session =
     \<lparr>user = Some \<lparr>id' = ''u0'', email = ''root@example.com'', role = ''admin'',
                    underscore_id = Some ''u0''\<rparr>,
      loading = False,
      localStorage = [''access_token'' \<mapsto> ''tok0'', ''user_role'' \<mapsto> ''admin''],
      navigated = Some ''/'',
      location_href = None,
      toasts = [ToastSuccess ''Login successful!'']\<rparr>"
  by (simp add: admin_session_def login_def login_settled_Resolved anonymous_def
      AuthProvider_def root_def setLoading_def dashboardRoute_def)

lemmas role_defs = isStudent_def isRecruiter_def isMentor_def

text \<open>
  C4, as the code has it. \<open>login\<close> has no guard: when the answer to a login request
  arrives after a \<open>logout\<close>, the rest of \<open>login\<close> runs on the cleared state as it
  would on any other. The session then holds the token, the role and the identity of
  that login, and the navigation target is the role's \<open>dashboardRoute\<close>.
\<close>

theorem late_login_overrides_logout:
  assumes "server (login_request email' password s) = Resolved d"
  shows "case login_settled email' (server (login_request email' password s)) (logout s) of
           (outcome, s') \<Rightarrow>
             outcome = Resolved () \<and>
             user s' = Some \<lparr>id' = user_id d, email = email', role = login_data.role d,
                              underscore_id = Some (user_id d)\<rparr> \<and>
             localStorage s' ''access_token'' = Some (access_token d) \<and>
             localStorage s' ''user_role'' = Some (login_data.role d) \<and>
             navigated s' = Some (dashboardRoute (login_data.role d)) \<and>
             isAuthenticated s'"
  using assms by (simp add: login_settled_Resolved isAuthenticated_def getItem_def)

theorem late_login_overrides_logout_witness:
  "case login_settled ''sam@example.com''
          ((\<lambda>_. Resolved sam) (login_request ''sam@example.com'' ''hunter2'' student_session))
          (logout student_session) of
     (outcome, s') \<Rightarrow>
       outcome = Resolved () \<and>
       user s' = Some \<lparr>id' = ''u2'', email = ''sam@example.com'', role = ''recruiter'',
                        underscore_id = Some ''u2''\<rparr> \<and>
       localStorage s' ''access_token'' = Some ''tok2'' \<and>
       localStorage s' ''user_role'' = Some ''recruiter'' \<and>
       navigated s' = Some ''/recruiter-dashboard'' \<and>
       isAuthenticated s'"
  using late_login_overrides_logout
    [of "\<lambda>_. Resolved sam" "''sam@example.com''" "''hunter2''" student_session sam]
  by (auto simp: sam_def dashboardRoute_def split: prod.splits)

text \<open>
  C4, as the claim words it, fails: the student logs out while a login of the recruiter
  is pending; when that login resolves, identity, token and role hint are present again.
\<close>

theorem logout_does_not_win:
  "\<not> (case login_settled ''sam@example.com''
            ((\<lambda>_. Resolved sam) (login_request ''sam@example.com'' ''hunter2'' student_session))
            (logout student_session) of
        (outcome, s') \<Rightarrow>
          user s' = None \<and>
          localStorage s' ''access_token'' = None \<and>
          localStorage s' ''user_role'' = None)"
  by (simp add: login_settled_Resolved)

section \<open>Session restoration and the routes\<close>

lemma loading_renders_LoadingView: "loading s \<Longrightarrow> AppRoutes s path = Render LoadingView"
  by (simp add: AppRoutes_def)

lemma no_user_no_protected_view:
  "user s = None \<Longrightarrow> AppRoutes s path = Render v \<Longrightarrow> \<not> protected_view v"
  by (auto simp: AppRoutes_def isAuthenticated_def protected_view_def split: if_splits)

lemma trace_append: "trace (fs @ gs) s = trace fs s @ trace gs (run fs s)"
  by (induction fs arbitrary: s) simp_all

lemma on_rejected_user: "user (run (on_rejected error) s) = user s"
  by (simp add: on_rejected_def effect_defs split: option.splits)

lemma on_rejected_loading: "loading (run (on_rejected error) s) = loading s"
  by (simp add: on_rejected_def effect_defs split: option.splits)

lemma on_rejected_trace_user: "t \<in> set (trace (on_rejected error) s) \<Longrightarrow> user t = user s"
  by (auto simp: on_rejected_def effect_defs split: option.splits if_splits)

lemma on_rejected_trace_loading:
  "t \<in> set (trace (on_rejected error) s) \<Longrightarrow> loading t = loading s"
  by (auto simp: on_rejected_def effect_defs split: option.splits if_splits)

lemma restoration_rejected_eq:
  assumes "server (request_interceptor (AuthProvider ls) (axiosClient ''/auth/me'' [])) = Rejected error"
  shows "restoration ls server =
     (if truthy (getItem ''access_token'' (AuthProvider ls)) \<and>
         truthy (getItem ''user_role'' (AuthProvider ls))
      then AuthProvider ls # trace (on_rejected error) (AuthProvider ls) @
           trace [removeItem ''access_token'', removeItem ''user_role'', setUser None,
                  setLoading False] (run (on_rejected error) (AuthProvider ls))
      else [AuthProvider ls, setLoading False (AuthProvider ls)])"
  using assms by (simp add: restoration_def Let_def getCurrentUser_settled_def trace_append)

lemma catch_trace_user:
  "t \<in> set (trace [removeItem a, removeItem b, setUser None, setLoading False] s) \<Longrightarrow>
   user s = None \<Longrightarrow> user t = None"
  by (auto simp: effect_defs)

lemma catch_trace_loading:
  "t \<in> set (trace [removeItem a, removeItem b, setUser None] s) \<Longrightarrow> loading t = loading s"
  by (auto simp: effect_defs)

lemma restoration_rejected_user:
  assumes "server (request_interceptor (AuthProvider ls) (axiosClient ''/auth/me'' [])) = Rejected error"
    and "t \<in> set (restoration ls server)"
  shows "user t = None"
proof -
  have init: "user (AuthProvider ls) = None" by (simp add: AuthProvider_def)
  have init': "user (setLoading False (AuthProvider ls)) = None"
    by (simp add: AuthProvider_def setLoading_def)
  have after: "user (run (on_rejected error) (AuthProvider ls)) = None"
    by (simp add: on_rejected_user init)
  from assms(2) consider
      (start) "t = AuthProvider ls"
    | (idle) "t = setLoading False (AuthProvider ls)"
    | (interceptor) "t \<in> set (trace (on_rejected error) (AuthProvider ls))"
    | (handler) "t \<in> set (trace [removeItem ''access_token'', removeItem ''user_role'',
                                   setUser None, setLoading False]
                                  (run (on_rejected error) (AuthProvider ls)))"
    unfolding restoration_rejected_eq [of server ls error, OF assms(1)]
    by (auto split: if_splits)
  then show ?thesis
  proof cases
    case start
    with init show ?thesis by simp
  next
    case idle
    with init' show ?thesis by simp
  next
    case interceptor
    then have "user t = user (AuthProvider ls)" by (rule on_rejected_trace_user)
    with init show ?thesis by simp
  next
    case handler
    then show ?thesis using after by (rule catch_trace_user)
  qed
qed

lemma restoration_rejected_loading:
  assumes "server (request_interceptor (AuthProvider ls) (axiosClient ''/auth/me'' [])) = Rejected error"
    and "t \<in> set (butlast (restoration ls server))"
  shows "loading t"
proof -
  have init: "loading (AuthProvider ls)" by (simp add: AuthProvider_def)
  have after: "loading (run (on_rejected error) (AuthProvider ls))"
    by (simp add: on_rejected_loading init)
  have split_last: "[removeItem ''access_token'', removeItem ''user_role'', setUser None,
                     setLoading False]
                    = [removeItem ''access_token'', removeItem ''user_role'', setUser None] @
                      [setLoading False]"
    by simp
  from assms(2) consider
      (start) "t = AuthProvider ls"
    | (interceptor) "t \<in> set (trace (on_rejected error) (AuthProvider ls))"
    | (handler) "t \<in> set (trace [removeItem ''access_token'', removeItem ''user_role'',
                                   setUser None]
                                  (run (on_rejected error) (AuthProvider ls)))"
    unfolding restoration_rejected_eq [of server ls error, OF assms(1)] split_last trace_append
    by (auto simp: butlast_append split: if_splits)
  then show ?thesis
  proof cases
    case start
    with init show ?thesis by simp
  next
    case interceptor
    then have "loading t = loading (AuthProvider ls)" by (rule on_rejected_trace_loading)
    with init show ?thesis by simp
  next
    case handler
    then have "loading t = loading (run (on_rejected error) (AuthProvider ls))"
      by (rule catch_trace_loading)
    with after show ?thesis by simp
  qed
qed

lemma restoration_last_not_loading: "\<not> loading (last (restoration ls server))"
  by (auto simp: restoration_def Let_def getCurrentUser_settled_def trace_append effect_defs
      split: settled.splits)


lemma follow_renders: "follow n s p = Some (q, v) \<Longrightarrow> AppRoutes s q = Render v"
  by (induction n arbitrary: p) (auto split: element.splits)

text \<open>
  C7. While \<open>loading\<close> is true, \<open>AppRoutes\<close> returns the loading view at every
  location. When the \<open>/auth/me\<close> request of the restoration is rejected, no state the
  provider passes through, from the first render to the end of the restoration, makes
  \<open>AppRoutes\<close> render a dashboard at any location, neither directly nor after
  redirects: every state but the last shows the loading view, and the last one is
  not authenticated.
\<close>

theorem no_flash_of_protected_content:
  "(loading s \<longrightarrow> AppRoutes s path = Render LoadingView) \<and>
   (server (request_interceptor (AuthProvider ls) (axiosClient ''/auth/me'' [])) = Rejected error \<longrightarrow>
      (\<forall>t \<in> set (restoration ls server). \<forall>p v. AppRoutes t p = Render v \<longrightarrow> \<not> protected_view v) \<and>
      (\<forall>t \<in> set (restoration ls server). \<forall>n p q v.
          follow n t p = Some (q, v) \<longrightarrow> \<not> protected_view v) \<and>
      (\<forall>t \<in> set (butlast (restoration ls server)). \<forall>p. AppRoutes t p = Render LoadingView) \<and>
      \<not> loading (last (restoration ls server)) \<and>
      \<not> isAuthenticated (last (restoration ls server)))"
proof (intro conjI impI)
  assume "loading s"
  then show "AppRoutes s path = Render LoadingView" by (rule loading_renders_LoadingView)
next
  assume rej: "server (request_interceptor (AuthProvider ls) (axiosClient ''/auth/me'' []))
                 = Rejected error"
  have no_user: "user t = None" if "t \<in> set (restoration ls server)" for t
    using restoration_rejected_user [of server ls error t] rej that by simp
  show "\<forall>t \<in> set (restoration ls server). \<forall>p v. AppRoutes t p = Render v \<longrightarrow> \<not> protected_view v"
    using no_user no_user_no_protected_view by blast
  show "\<forall>t \<in> set (restoration ls server). \<forall>n p q v.
          follow n t p = Some (q, v) \<longrightarrow> \<not> protected_view v"
    using no_user no_user_no_protected_view follow_renders by blast
  show "\<forall>t \<in> set (butlast (restoration ls server)). \<forall>p. AppRoutes t p = Render LoadingView"
    using restoration_rejected_loading [of server ls error] rej loading_renders_LoadingView
    by blast
  show "\<not> loading (last (restoration ls server))"
    by (rule restoration_last_not_loading)
  have "restoration ls server \<noteq> []"
    by (simp add: restoration_def Let_def)
  then have "last (restoration ls server) \<in> set (restoration ls server)"
    by (rule last_in_set)
  then have "user (last (restoration ls server)) = None" by (rule no_user)
  then show "\<not> isAuthenticated (last (restoration ls server))"
    by (simp add: isAuthenticated_def)
qed

theorem no_flash_of_protected_content_witness:
  "loading (AuthProvider stale) \<and>
   AppRoutes (AuthProvider stale) ''/student-dashboard'' = Render LoadingView \<and>
   map (\<lambda>t. AppRoutes t ''/student-dashboard'') (restoration stale (\<lambda>_. Rejected unauthorized))
     = [Render LoadingView, Render LoadingView, Render LoadingView, Render LoadingView,
        Render LoadingView, Render LoadingView, Render LoadingView, Render LoadingView,
        Navigate ''/login''] \<and>
   follow 2 (last (restoration stale (\<lambda>_. Rejected unauthorized))) ''/student-dashboard''
     = Some (''/login'', LoginPage)"
  using no_flash_of_protected_content
    [of "AuthProvider stale" "''/student-dashboard''" "\<lambda>_. Rejected unauthorized" stale unauthorized]
  by (simp add: restoration_def Let_def getCurrentUser_settled_def on_rejected_def
      unauthorized_def stale_def AuthProvider_def truthy_def effect_defs AppRoutes_def
      isAuthenticated_def numeral_2_eq_2)

section \<open>Redirects\<close>

lemma follow_more: "follow n s p = Some r \<Longrightarrow> follow (n + k) s p = Some r"
  by (induction n arbitrary: p) (auto split: element.splits)

lemma wrong_role_chain:
  assumes "\<not> loading s" and "isAuthenticated s" and "user s = Some u"
    and "userData.role u = r" and "path \<noteq> dashboardRoute r"
    and "r = ''student'' \<or> r = ''recruiter'' \<or> r = ''mentor''"
    and "path = ''/student-dashboard'' \<or> path = ''/recruiter-dashboard'' \<or>
         path = ''/mentor-dashboard''"
  shows "AppRoutes s path = Navigate ''/login''"
    and "AppRoutes s ''/login'' = Navigate ''/''"
    and "AppRoutes s ''/'' = Navigate (dashboardRoute r)"
    and "\<exists>v. protected_view v \<and> AppRoutes s (dashboardRoute r) = Render v"
proof -
  show "AppRoutes s ''/login'' = Navigate ''/''"
    using assms(1,2) by (simp add: AppRoutes_def)
  show "AppRoutes s ''/'' = Navigate (dashboardRoute r)"
    using assms(1-4,6) by (elim disjE) (simp_all add: AppRoutes_def dashboardRoute_def role_defs)
  show "\<exists>v. protected_view v \<and> AppRoutes s (dashboardRoute r) = Render v"
    using assms(1-4,6)
    by (elim disjE) (simp_all add: AppRoutes_def dashboardRoute_def role_defs protected_view_def)
  show "AppRoutes s path = Navigate ''/login''"
    using assms(1-4,6) assms(7) assms(5)
    by (elim disjE) (simp_all add: AppRoutes_def dashboardRoute_def role_defs)
qed

text \<open>
  C2. An authenticated user whose role is one of the three known ones asks for the
  dashboard of another role. \<open>AppRoutes\<close> answers with a redirect to \<open>/login\<close>, which
  for an authenticated user redirects to \<open>/\<close>, which redirects to the dashboard of
  the user's own role, where the dashboard is rendered: after these three redirects the
  router is at \<open>dashboardRoute\<close> of the user's role.
\<close>

theorem wrong_role_redirect:
  assumes "\<not> loading s" and "isAuthenticated s" and "user s = Some u"
    and "userData.role u \<in> {''student'', ''recruiter'', ''mentor''}"
    and "path \<in> {''/student-dashboard'', ''/recruiter-dashboard'', ''/mentor-dashboard''}"
    and "path \<noteq> dashboardRoute (userData.role u)"
  shows "AppRoutes s path = Navigate ''/login'' \<and>
         AppRoutes s ''/login'' = Navigate ''/'' \<and>
         AppRoutes s ''/'' = Navigate (dashboardRoute (userData.role u)) \<and>
         (\<exists>v. protected_view v \<and>
              AppRoutes s (dashboardRoute (userData.role u)) = Render v \<and>
              follow (4 + k) s path = Some (dashboardRoute (userData.role u), v))"
proof -
  have role: "userData.role u = ''student'' \<or> userData.role u = ''recruiter'' \<or>
              userData.role u = ''mentor''"
    using assms(4) by simp
  have route: "path = ''/student-dashboard'' \<or> path = ''/recruiter-dashboard'' \<or>
               path = ''/mentor-dashboard''"
    using assms(5) by simp
  note chain = wrong_role_chain [OF assms(1-3) refl assms(6) role route]
  from chain(4) obtain v where v: "protected_view v"
    "AppRoutes s (dashboardRoute (userData.role u)) = Render v"
    by blast
  have "follow (Suc (Suc (Suc (Suc 0)))) s path = Some (dashboardRoute (userData.role u), v)"
    by (simp add: chain(1-3) v(2))
  then have "follow (Suc (Suc (Suc (Suc 0))) + k) s path
               = Some (dashboardRoute (userData.role u), v)"
    by (rule follow_more)
  then have "follow (4 + k) s path = Some (dashboardRoute (userData.role u), v)"
    by (simp add: numeral_eq_Suc)
  with chain(1-3) v show ?thesis by blast
qed

theorem wrong_role_redirect_witness:
  "AppRoutes recruiter_session ''/student-dashboard'' = Navigate ''/login'' \<and>
   follow 4 recruiter_session ''/student-dashboard''
     = Some (''/recruiter-dashboard'', RecruiterDashboard)"
proof -
  have u: "user recruiter_session
             = Some \<lparr>id' = ''u2'', email = ''sam@example.com'', role = ''recruiter'',
                      underscore_id = Some ''u2''\<rparr>"
    by (simp add: recruiter_session_eq)
  have a: "\<not> loading recruiter_session" "isAuthenticated recruiter_session"
    by (simp_all add: recruiter_session_eq isAuthenticated_def getItem_def)
  have r: "AppRoutes recruiter_session ''/recruiter-dashboard'' = Render RecruiterDashboard"
    by (simp add: AppRoutes_def recruiter_session_eq isAuthenticated_def getItem_def role_defs)
  have d: "dashboardRoute ''recruiter'' = ''/recruiter-dashboard''"
    by (simp add: dashboardRoute_def)
  have "AppRoutes recruiter_session ''/student-dashboard'' = Navigate ''/login'' \<and>
        AppRoutes recruiter_session ''/login'' = Navigate ''/'' \<and>
        AppRoutes recruiter_session ''/'' = Navigate ''/recruiter-dashboard'' \<and>
        (\<exists>v. protected_view v \<and>
             AppRoutes recruiter_session ''/recruiter-dashboard'' = Render v \<and>
             follow 4 recruiter_session ''/student-dashboard''
               = Some (''/recruiter-dashboard'', v))"
    using wrong_role_redirect [OF a u, of "''/student-dashboard''" 0] by (simp add: d)
  then obtain v where
    first: "AppRoutes recruiter_session ''/student-dashboard'' = Navigate ''/login''" and
    view: "AppRoutes recruiter_session ''/recruiter-dashboard'' = Render v" and
    final: "follow 4 recruiter_session ''/student-dashboard'' = Some (''/recruiter-dashboard'', v)"
    by blast
  from view r have "v = RecruiterDashboard" by simp
  with first final show ?thesis by simp
qed

text \<open>
  Where the redirects do end: at once while loading, at the login page for a visitor
  who is not authenticated, and at a dashboard for an authenticated user of a known
  role, always within four renders.
\<close>

lemma loading_reaches_view:
  "loading s \<Longrightarrow> follow (Suc n) s path = Some (path, LoadingView)"
  by (simp add: AppRoutes_def)

lemma anonymous_reaches_view:
  assumes "\<not> loading s" and "\<not> isAuthenticated s"
  shows "follow (3 + k) s path = Some (''/login'', LoginPage)"
proof -
  have login: "AppRoutes s ''/login'' = Render LoginPage"
    and root: "AppRoutes s ''/'' = Navigate ''/login''"
    using assms by (simp_all add: AppRoutes_def)
  have "AppRoutes s path = Render LoginPage \<and> path = ''/login'' \<or>
        AppRoutes s path = Navigate ''/login'' \<or> AppRoutes s path = Navigate ''/''"
    using assms by (simp add: AppRoutes_def)
  then have "follow (Suc (Suc (Suc 0))) s path = Some (''/login'', LoginPage)"
    using login root by (elim disjE conjE) simp_all
  then have "follow (Suc (Suc (Suc 0)) + k) s path = Some (''/login'', LoginPage)"
    by (rule follow_more)
  then show ?thesis by (simp add: numeral_eq_Suc)
qed

lemma known_role_reaches_view:
  assumes "\<not> loading s" and "isAuthenticated s"
    and "isStudent s \<or> isRecruiter s \<or> isMentor s"
  shows "\<exists>q v. protected_view v \<and> follow (4 + k) s path = Some (q, v)"
proof -
  have "\<exists>home v. AppRoutes s ''/'' = Navigate home \<and> AppRoutes s home = Render v \<and>
                  protected_view v"
  proof (cases "isStudent s")
    case True
    with assms(1,2) have "AppRoutes s ''/'' = Navigate ''/student-dashboard'' \<and>
        AppRoutes s ''/student-dashboard'' = Render StudentDashboard \<and>
        protected_view StudentDashboard"
      by (simp add: AppRoutes_def protected_view_def)
    then show ?thesis by blast
  next
    case no_student: False
    show ?thesis
    proof (cases "isRecruiter s")
      case True
      with no_student assms(1,2) have "AppRoutes s ''/'' = Navigate ''/recruiter-dashboard'' \<and>
          AppRoutes s ''/recruiter-dashboard'' = Render RecruiterDashboard \<and>
          protected_view RecruiterDashboard"
        by (simp add: AppRoutes_def protected_view_def)
      then show ?thesis by blast
    next
      case False
      with no_student assms have "AppRoutes s ''/'' = Navigate ''/mentor-dashboard'' \<and>
          AppRoutes s ''/mentor-dashboard'' = Render MentorDashboard \<and>
          protected_view MentorDashboard"
        by (simp add: AppRoutes_def protected_view_def)
      then show ?thesis by blast
    qed
  qed
  then obtain home v where root: "AppRoutes s ''/'' = Navigate home"
    and home: "AppRoutes s home = Render v" and v: "protected_view v"
    by blast
  have login: "AppRoutes s ''/login'' = Navigate ''/''"
    using assms by (simp add: AppRoutes_def)
  have first: "(\<exists>w. protected_view w \<and> AppRoutes s path = Render w) \<or>
        AppRoutes s path = Navigate ''/login'' \<or> AppRoutes s path = Navigate ''/''"
    if "path \<noteq> ''/''"
    using assms(1,2) that by (simp add: AppRoutes_def protected_view_def)
  have "\<exists>q w. protected_view w \<and> follow (Suc (Suc (Suc (Suc 0)))) s path = Some (q, w)"
  proof (cases "path = ''/''")
    case True
    with root home v show ?thesis by simp
  next
    case False
    from first [OF False] show ?thesis
      using root home v login by (elim disjE exE conjE) simp_all
  qed
  then obtain q w where "protected_view w"
    "follow (Suc (Suc (Suc (Suc 0)))) s path = Some (q, w)" by blast
  then have "protected_view w \<and> follow (Suc (Suc (Suc (Suc 0))) + k) s path = Some (q, w)"
    using follow_more by blast
  then show ?thesis by (auto simp: numeral_eq_Suc)
qed

lemma unrecognized_role_cycle:
  assumes "\<not> loading s" and "isAuthenticated s"
    and "\<not> isStudent s" and "\<not> isRecruiter s" and "\<not> isMentor s"
  shows "follow n s ''/'' = None \<and> follow n s ''/login'' = None"
proof (induction n)
  case 0
  show ?case by simp
next
  case (Suc n)
  with assms show ?case by (simp add: AppRoutes_def)
qed

lemma unrecognized_role_never_renders:
  assumes "\<not> loading s" and "isAuthenticated s"
    and "\<not> isStudent s" and "\<not> isRecruiter s" and "\<not> isMentor s"
  shows "follow n s path = None"
proof (cases n)
  case 0
  then show ?thesis by simp
next
  case (Suc m)
  have "AppRoutes s path = Navigate ''/'' \<or> AppRoutes s path = Navigate ''/login''"
    using assms by (simp add: AppRoutes_def)
  with Suc unrecognized_role_cycle [OF assms, of m] show ?thesis by auto
qed

text \<open>
  C10 does not hold of the code. \<open>login\<close> accepts any role string; for a role that is
  none of the three known ones the session is authenticated but no role predicate
  holds. Then \<open>/\<close> redirects to \<open>/login\<close> and \<open>/login\<close> redirects to \<open>/\<close>, every
  other location redirects to one of the two, and no number of renders reaches a view.
\<close>

theorem admin_redirect_cycle:
  "follow n admin_session path = None"
  by (rule unrecognized_role_never_renders)
     (simp_all add: admin_session_eq isAuthenticated_def getItem_def role_defs)

theorem admin_redirect_cycle_witness:
  "AppRoutes admin_session ''/'' = Navigate ''/login'' \<and>
   AppRoutes admin_session ''/login'' = Navigate ''/'' \<and>
   follow 1000 admin_session ''/'' = None"
  using admin_redirect_cycle [of 1000 "''/''"]
  by (simp add: AppRoutes_def admin_session_eq isAuthenticated_def getItem_def role_defs)

end
